theory Spec2Isabelle
  imports Complex_Main
begin

section \<open>Python values, errors and name lookup\<close>

text \<open>
  The exceptions that \<open>modeling_mtdnn.py\<close> can raise are values; a computation that may
  raise returns \<open>py_error + 'a\<close>, with \<open>Inl\<close> the exception. \<open>ExternalError\<close> stands for
  whatever a library call outside the repository (transformers, fairseq, torch) raises.
\<close>

datatype py_error =
    ValueError string
  | NameError string
  | UnboundLocalError string
  | AttributeError string
  | IndexError
  | AssertionError
  | KeyError string
  | TypeError string
  | RuntimeError string
  | ExternalError string

definition then_py :: "py_error + 'a \<Rightarrow> ('a \<Rightarrow> py_error + 'b) \<Rightarrow> py_error + 'b" where
  "then_py r f = (case r of Inl e \<Rightarrow> Inl e | Inr x \<Rightarrow> f x)"

definition py_assert :: "bool \<Rightarrow> py_error + unit" where
  "py_assert b = (if b then Inr () else Inl AssertionError)"

text \<open>
  Indexing a Python list (and a torch \<open>ModuleList\<close>) with an integer: a negative index counts
  from the end, anything outside \<open>[-n, n)\<close> raises IndexError.
\<close>

definition py_index :: "'a list \<Rightarrow> int \<Rightarrow> py_error + 'a" where
  "py_index xs i =
     (if 0 \<le> i \<and> i < int (length xs) then Inr (xs ! nat i)
      else if i < 0 \<and> - int (length xs) \<le> i then Inr (xs ! nat (int (length xs) + i))
      else Inl IndexError)"

text \<open>
  The values a module-level name of \<open>modeling_mtdnn.py\<close> can denote, and the module's
  global namespace: one entry for each name bound by the import statements (lines 8 to 28),
  by \<open>logger = ...\<close> (line 30) and by the two class statements.  A name read inside a method
  that is neither assigned in that method nor bound here raises NameError.
\<close>

datatype py_value = VInt int | VClass string | VModule string | VFunction string | VObject string

definition module_globals :: "(string \<times> py_value) list" where
  "module_globals =
     [(''logging'', VModule ''logging''),
      (''os'', VModule ''os''),
      (''torch'', VModule ''torch''),
      (''nn'', VModule ''torch.nn''),
      (''BertConfig'', VClass ''BertConfig''),
      (''BertModel'', VClass ''BertModel''),
      (''BertPreTrainedModel'', VClass ''BertPreTrainedModel''),
      (''PretrainedConfig'', VClass ''PretrainedConfig''),
      (''PreTrainedModel'', VClass ''PreTrainedModel''),
      (''RobertaModel'', VClass ''RobertaModel''),
      (''FairseqRobertModel'', VClass ''RobertaModel''),
      (''maybe_download'', VFunction ''maybe_download''),
      (''AverageMeter'', VClass ''AverageMeter''),
      (''LinearPooler'', VClass ''LinearPooler''),
      (''DataFormat'', VClass ''DataFormat''),
      (''EncoderModelType'', VClass ''EncoderModelType''),
      (''TaskType'', VClass ''TaskType''),
      (''MTDNNConfig'', VClass ''MTDNNConfig''),
      (''PRETRAINED_MODEL_ARCHIVE_MAP'', VObject ''dict''),
      (''logger'', VObject ''Logger''),
      (''MTDNNPretrainedModel'', VClass ''MTDNNPretrainedModel''),
      (''MTDNNModel'', VClass ''MTDNNModel'')]"

definition load_global :: "string \<Rightarrow> py_error + py_value" where
  "load_global name =
     (case map_of module_globals name of None \<Rightarrow> Inl (NameError name) | Some v \<Rightarrow> Inr v)"

section \<open>Tensors, by shape\<close>

text \<open>
  A tensor is modelled by its shape; the floating-point entries are left out.  The
  operations below are the torch calls that \<open>forward\<close> makes, with the shape each returns
  and the error each raises on a shape it does not accept.
\<close>

datatype tensor = Tensor (shape: "nat list")

definition size_dim :: "tensor \<Rightarrow> nat \<Rightarrow> py_error + nat" where
  \<comment> \<open>\<open>t.size(d)\<close>\<close>
  "size_dim t d = (if d < length (shape t) then Inr (shape t ! d) else Inl IndexError)"

definition split1_last :: "tensor \<Rightarrow> py_error + tensor list" where
  \<comment> \<open>\<open>t.split(1, dim=-1)\<close>: one chunk of width 1 for each entry of the last dimension\<close>
  "split1_last t =
     (if shape t = [] then Inl IndexError
      else if last (shape t) = 0 then Inr [t]
      else Inr (replicate (last (shape t)) (Tensor (butlast (shape t) @ [1]))))"

definition unpack2 :: "'a list \<Rightarrow> py_error + ('a \<times> 'a)" where
  \<comment> \<open>\<open>a, b = xs\<close>\<close>
  "unpack2 xs = (case xs of [a, b] \<Rightarrow> Inr (a, b) | _ \<Rightarrow> Inl (ValueError ''unpack''))"

definition squeeze_last :: "tensor \<Rightarrow> tensor" where
  \<comment> \<open>\<open>t.squeeze(-1)\<close>: drops the last dimension when it has size 1\<close>
  "squeeze_last t =
     (if shape t \<noteq> [] \<and> last (shape t) = 1 then Tensor (butlast (shape t)) else t)"

definition view_rows :: "tensor \<Rightarrow> nat \<Rightarrow> py_error + tensor" where
  \<comment> \<open>\<open>t.contiguous().view(-1, k)\<close>\<close>
  "view_rows t k =
     (if 0 < k \<and> prod_list (shape t) mod k = 0
      then Inr (Tensor [prod_list (shape t) div k, k])
      else Inl (RuntimeError ''view''))"

definition slice_queries :: "tensor \<Rightarrow> nat \<Rightarrow> py_error + tensor" where
  \<comment> \<open>\<open>t[:, :max_query, :]\<close>\<close>
  "slice_queries t max_query =
     (case shape t of
        b # s # rest \<Rightarrow>
          (if rest = [] then Inl IndexError else Inr (Tensor (b # min max_query s # rest)))
      | _ \<Rightarrow> Inl IndexError)"

section \<open>Configuration and modules\<close>

text \<open>
  Modelled from the spec: \<open>EncoderModelType\<close> and \<open>TaskType\<close> (module
  \<open>utils_nlp.models.mtdnn.common.types\<close>) and \<open>MTDNNConfig\<close> (module
  \<open>configuration_mtdnn\<close>) are not among the sources.  The enumerations have the members
  the spec lists; the configuration has the fields that \<open>MTDNNModel.__init__\<close> reads.
\<close>

datatype EncoderModelType = BERT | ROBERTA

datatype TaskType = Span | SequenceLabeling | Other

record MTDNNConfig =
  encoder_type :: EncoderModelType
  init_checkpoint :: string
  hidden_size :: nat
  dump_feature :: bool
  decoder_opts :: "int list"
  update_bert_opt :: int
  task_types :: "TaskType list"
  tasks_dropout_p :: "real list"
  n_class :: "int list"
  enable_variational_dropout :: bool

text \<open>What can be passed as \<open>config\<close> to a constructor.\<close>

datatype py_object =
    MTDNNConfigObj MTDNNConfig
  | PretrainedConfigObj string
  | NonConfigObj string

fun is_PretrainedConfig :: "py_object \<Rightarrow> bool" where
  "is_PretrainedConfig (MTDNNConfigObj c) = True"
| "is_PretrainedConfig (PretrainedConfigObj n) = True"
| "is_PretrainedConfig (NonConfigObj n) = False"

text \<open>
  A torch module, as \<open>_my_init\<close> sees it: its class, the state of its two parameters, and
  its child modules.  A normalisation module names its parameters either \<open>gamma\<close>/\<open>beta\<close>
  or \<open>weight\<close>/\<open>bias\<close>; in both cases \<open>weight\<close> below is the scale and \<open>bias\<close> the shift.
\<close>

datatype param_state = Untouched | NormalInit real real | Zeroed | Filled real

datatype module_kind =
  KLinear | KEmbedding | KLayerNormGammaBeta | KLayerNormWeightBias | KOther

datatype module =
  Module (kind: module_kind) (weight: param_state) (bias: param_state) (children: "module list")

text \<open>
  Modelled from the spec: \<open>DropoutWrapper\<close> is not among the sources (nor imported by
  \<open>modeling_mtdnn.py\<close>); applying dropout keeps the shape.
\<close>

datatype DropoutWrapper = DropoutWrapper real bool

definition dropout_call :: "DropoutWrapper \<Rightarrow> tensor \<Rightarrow> py_error + tensor" where
  "dropout_call d t = Inr t"

text \<open>\<open>nn.Linear(in_features, out_features)\<close>, the only kind of scoring head \<open>__init__\<close> builds.\<close>

datatype head = Linear (in_features: nat) (out_features: nat)

definition linear_call :: "head \<Rightarrow> tensor \<Rightarrow> py_error + tensor" where
  \<comment> \<open>\<open>head(t)\<close>: the last dimension must be \<open>in_features\<close> and becomes \<open>out_features\<close>\<close>
  "linear_call h t =
     (if shape t \<noteq> [] \<and> last (shape t) = in_features h
      then Inr (Tensor (butlast (shape t) @ [out_features h]))
      else Inl (RuntimeError ''shape''))"

definition linear_call4 :: "head \<Rightarrow> tensor \<Rightarrow> tensor \<Rightarrow> tensor option \<Rightarrow> tensor option \<Rightarrow> py_error + tensor" where
  \<comment> \<open>\<open>head(a, b, c, d)\<close>: \<open>nn.Linear.forward\<close> takes one input\<close>
  "linear_call4 h a b c d = Inl (TypeError ''forward'')"

text \<open>
  The encoder object \<open>self.bert\<close> belongs to transformers or fairseq: its two entry points
  and its module tree are parameters.
\<close>

record encoder =
  enc_call :: "tensor \<Rightarrow> tensor \<Rightarrow> tensor \<Rightarrow> py_error + (tensor list \<times> tensor)"
  enc_extract_features :: "tensor \<Rightarrow> py_error + tensor"
  enc_modules :: module
  enc_frozen :: bool

text \<open>
  The outcome of the library calls that the constructors make: the base-class constructor
  (line 40), building the BERT encoder from the configuration (lines 61 to 67, with the
  module tree the base class registers on the model itself), and loading the fairseq
  RoBERTa checkpoint (lines 70 and 71, with its \<open>args.encoder_embed_dim\<close>).
\<close>

record externals =
  super_init :: "py_object \<Rightarrow> py_error option"
  new_BertModel :: "MTDNNConfig \<Rightarrow> py_error + encoder"
  base_modules :: "module list"
  base_pooler :: "tensor \<Rightarrow> py_error + tensor"
  from_pretrained :: "string \<Rightarrow> py_error + (encoder \<times> nat)"

text \<open>
  The model instance.  An attribute that \<open>__init__\<close> assigns only on some paths, or never,
  is an option: \<open>None\<close> is "the instance has no such attribute".
\<close>

record MTDNNModel =
  self_config :: MTDNNConfig
  self_local_updates :: nat
  self_dropout_list :: "DropoutWrapper list"
  self_encoder_type :: EncoderModelType
  self_bert :: encoder
  self_hidden_size :: nat
  self_pooler :: "tensor \<Rightarrow> py_error + tensor"
  self_decoder_opts :: "int list option"
  self_scoring_list :: "head list option"
  self_task_types :: "TaskType list option"
  self_task_dropout_p :: "real list option"
  self_n_class :: "int list option"
  self_opt :: "(string \<rightharpoonup> real) option"
  self_modules :: "module list"

definition getattr :: "string \<Rightarrow> 'a option \<Rightarrow> py_error + 'a" where
  "getattr name v = (case v of None \<Rightarrow> Inl (AttributeError name) | Some x \<Rightarrow> Inr x)"

section \<open>MTDNNPretrainedModel.__init__\<close>

definition config_error_message :: "string \<Rightarrow> string" where
  "config_error_message cls =
     ''Parameter config in `'' @ cls @
     ''(config)` should be an instance of class `PretrainedConfig`. '' @
     ''To create a model from a pretrained model use '' @
     ''`model = '' @ cls @ ''.from_pretrained(PRETRAINED_MODEL_NAME)`''"

definition MTDNNPretrainedModel_init :: "externals \<Rightarrow> string \<Rightarrow> py_object \<Rightarrow> py_error + py_object" where
  \<comment> \<open>\<open>cls\<close> is \<open>self.__class__.__name__\<close>; the result is the stored \<open>self.config\<close>\<close>
  "MTDNNPretrainedModel_init ext cls config =
     (case super_init ext config of
        Some e \<Rightarrow> Inl e
      | None \<Rightarrow>
          if \<not> is_PretrainedConfig config then Inl (ValueError (config_error_message cls))
          else Inr config)"

section \<open>MTDNNModel.__init__\<close>

text \<open>
  Modelled from the spec: \<open>LinearPooler\<close> is not among the sources; it converts a sequence
  output into a pooled vector of the hidden size it was built with.
\<close>

definition LinearPooler_call :: "nat \<Rightarrow> tensor \<Rightarrow> py_error + tensor" where
  "LinearPooler_call h t =
     (case shape t of
        [b, s, d] \<Rightarrow> if d = h then Inr (Tensor [b, h]) else Inl (RuntimeError ''shape'')
      | _ \<Rightarrow> Inl (RuntimeError ''shape''))"

definition new_LinearPooler :: "py_value \<Rightarrow> py_error + (tensor \<Rightarrow> py_error + tensor)" where
  "new_LinearPooler a =
     (case a of
        VInt n \<Rightarrow> if 0 \<le> n then Inr (LinearPooler_call (nat n)) else Inl (RuntimeError ''size'')
      | _ \<Rightarrow> Inl (TypeError ''LinearPooler''))"

definition new_DropoutWrapper :: "py_value \<Rightarrow> real \<Rightarrow> bool \<Rightarrow> py_error + DropoutWrapper" where
  "new_DropoutWrapper cls p v =
     (if cls = VClass ''DropoutWrapper'' then Inr (DropoutWrapper p v)
      else Inl (TypeError ''call''))"

definition new_Linear :: "py_value \<Rightarrow> int \<Rightarrow> py_error + head" where
  "new_Linear a out =
     (case a of
        VInt n \<Rightarrow>
          if 0 \<le> n \<and> 0 \<le> out then Inr (Linear (nat n) (nat out))
          else Inl (RuntimeError ''size'')
      | _ \<Rightarrow> Inl (TypeError ''Linear''))"

text \<open>
  Lines 91 to 103: the loop \<open>for task, label in enumerate(self.n_class)\<close>, with the two
  lists built so far as accumulator.
\<close>

fun build_heads :: "MTDNNConfig \<Rightarrow> nat \<Rightarrow> int list \<Rightarrow> DropoutWrapper list \<times> head list
    \<Rightarrow> py_error + (DropoutWrapper list \<times> head list)" where
  "build_heads config task [] acc = Inr acc"
| "build_heads config task (label # rest) acc =
     then_py (py_index (task_types config) (int task)) (\<lambda>task_type.
     then_py (load_global ''DropoutWrapper'') (\<lambda>cls.
     then_py (py_index (tasks_dropout_p config) (int task)) (\<lambda>p.
     then_py (new_DropoutWrapper cls p (enable_variational_dropout config)) (\<lambda>dropout.
     then_py (load_global ''nn'') (\<lambda>nn.
     then_py (load_global ''hidden_size'') (\<lambda>h.
     then_py (if task_type = Span then new_Linear h 2
              else if task_type = SequenceLabeling then new_Linear h label
              else new_Linear h label) (\<lambda>out_proj.
       build_heads config (Suc task) rest (fst acc @ [dropout], snd acc @ [out_proj]))))))))"

section \<open>MTDNNModel._my_init\<close>

definition dict_get :: "(string \<rightharpoonup> 'a) \<Rightarrow> string \<Rightarrow> py_error + 'a" where
  "dict_get d k = (case d k of None \<Rightarrow> Inl (KeyError k) | Some v \<Rightarrow> Inr v)"

definition is_layer_norm :: "module_kind \<Rightarrow> bool" where
  "is_layer_norm k = (k = KLayerNormGammaBeta \<or> k = KLayerNormWeightBias)"

text \<open>
  The inner function \<open>init_weights(module)\<close>, on the class and the parameters
  \<open>(weight, bias)\<close> of one module; \<open>opt\<close> is the attribute \<open>self.opt\<close> of the model.
\<close>

definition init_weights :: "(string \<rightharpoonup> real) option \<Rightarrow> module_kind
    \<Rightarrow> param_state \<times> param_state \<Rightarrow> py_error + (param_state \<times> param_state)" where
  "init_weights opt k wb =
     then_py
       (if k = KLinear \<or> k = KEmbedding then
          then_py (getattr ''opt'' opt) (\<lambda>d.
          then_py (dict_get d ''init_ratio'') (\<lambda>r.
            Inr (NormalInit 0 (0.02 * r), snd wb)))
        else
          then_py (load_global ''BertLayerNorm'') (\<lambda>cls.
            case cls of
              VClass n \<Rightarrow>
                if n = ''BertLayerNorm'' \<and> is_layer_norm k then Inr (Filled 1, Zeroed)
                else Inr wb
            | _ \<Rightarrow> Inl (TypeError ''isinstance'')))
       (\<lambda>wb'. if k = KLinear then Inr (fst wb', Zeroed) else Inr wb')"

text \<open>\<open>nn.Module.apply(fn)\<close>: the children first, in order, then the module itself.\<close>

fun apply_module :: "(module_kind \<Rightarrow> param_state \<times> param_state \<Rightarrow> py_error + (param_state \<times> param_state))
      \<Rightarrow> module \<Rightarrow> py_error + module"
  and apply_modules :: "(module_kind \<Rightarrow> param_state \<times> param_state \<Rightarrow> py_error + (param_state \<times> param_state))
      \<Rightarrow> module list \<Rightarrow> py_error + module list" where
  "apply_module fn (Module k w b cs) =
     (case apply_modules fn cs of
        Inl e \<Rightarrow> Inl e
      | Inr cs' \<Rightarrow>
          (case fn k (w, b) of
             Inl e \<Rightarrow> Inl e
           | Inr wb \<Rightarrow> Inr (Module k (fst wb) (snd wb) cs')))"
| "apply_modules fn [] = Inr []"
| "apply_modules fn (c # cs) =
     (case apply_module fn c of
        Inl e \<Rightarrow> Inl e
      | Inr c' \<Rightarrow>
          (case apply_modules fn cs of
             Inl e \<Rightarrow> Inl e
           | Inr cs' \<Rightarrow> Inr (c' # cs')))"

text \<open>
  \<open>self.apply(init_weights)\<close>: the model is itself a module, of none of the classes that
  \<open>init_weights\<close> tests for and with no parameter of its own; its children are
  \<open>self_modules\<close>.
\<close>

definition my_init :: "MTDNNModel \<Rightarrow> py_error + MTDNNModel" where
  "my_init self =
     then_py (apply_module (init_weights (self_opt self))
                (Module KOther Untouched Untouched (self_modules self))) (\<lambda>root.
       Inr (self\<lparr>self_modules := children root\<rparr>))"

text \<open>
  The modules registered on the model: those of the base class, the dropout list, the
  encoder, and the scoring list once it exists.
\<close>

definition module_tree :: "module list \<Rightarrow> DropoutWrapper list \<Rightarrow> encoder \<Rightarrow> head list option
    \<Rightarrow> module list" where
  "module_tree base dl bert sl =
     base @
     [Module KOther Untouched Untouched (map (\<lambda>d. Module KOther Untouched Untouched []) dl),
      enc_modules bert] @
     (case sl of
        None \<Rightarrow> []
      | Some hs \<Rightarrow>
          [Module KOther Untouched Untouched
             (map (\<lambda>h. Module KLinear Untouched Untouched []) hs)])"

text \<open>Lines 55 to 68: the instance once the BERT encoder is built.\<close>

definition new_instance :: "externals \<Rightarrow> MTDNNConfig \<Rightarrow> encoder \<Rightarrow> MTDNNModel" where
  "new_instance ext config bert =
     \<lparr>self_config = config, self_local_updates = 0, self_dropout_list = [],
      self_encoder_type = encoder_type config, self_bert = bert,
      self_hidden_size = hidden_size config, self_pooler = base_pooler ext,
      self_decoder_opts = None, self_scoring_list = None,
      self_task_types = None, self_task_dropout_p = None,
      self_n_class = None, self_opt = None,
      self_modules = module_tree (base_modules ext) [] bert None\<rparr>"

text \<open>Lines 70 to 72: the RoBERTa encoder and its pooling adapter.\<close>

definition roberta_setup :: "externals \<Rightarrow> MTDNNConfig \<Rightarrow> MTDNNModel \<Rightarrow> py_error + MTDNNModel" where
  "roberta_setup ext config self =
     then_py (from_pretrained ext (init_checkpoint config)) (\<lambda>loaded.
     then_py (load_global ''LinearPooler'') (\<lambda>cls.
     then_py (load_global ''hidden_size'') (\<lambda>h.
     then_py (new_LinearPooler h) (\<lambda>pooler.
       Inr (self\<lparr>self_bert := fst loaded, self_hidden_size := snd loaded,
                  self_pooler := pooler,
                  self_modules := module_tree (base_modules ext) [] (fst loaded) None\<rparr>)))))"

definition freeze :: "encoder \<Rightarrow> encoder" where
  \<comment> \<open>lines 84 and 85: \<open>requires_grad = False\<close> on every parameter of the encoder\<close>
  "freeze e = e\<lparr>enc_frozen := True\<rparr>"

text \<open>Lines 78 to 105: the task heads and the initialisation pass.\<close>

definition init_heads :: "externals \<Rightarrow> MTDNNConfig \<Rightarrow> MTDNNModel \<Rightarrow> py_error + MTDNNModel" where
  "init_heads ext config self0 =
     (let self1 = self0\<lparr>self_decoder_opts := Some (decoder_opts config),
                        self_scoring_list := Some []\<rparr>;
          self2 = (if update_bert_opt config > 0
                   then self1\<lparr>self_bert := freeze (self_bert self1)\<rparr> else self1);
          self3 = self2\<lparr>self_task_types := Some (task_types config),
                        self_task_dropout_p := Some (tasks_dropout_p config),
                        self_n_class := Some (n_class config)\<rparr>
      in then_py (build_heads config 0 (n_class config) (self_dropout_list self3, []))
           (\<lambda>lists.
             my_init (self3\<lparr>self_dropout_list := fst lists,
                            self_scoring_list := Some (snd lists),
                            self_modules :=
                              module_tree (base_modules ext) (fst lists) (self_bert self3)
                                (Some (snd lists))\<rparr>)))"

definition MTDNNModel_init :: "externals \<Rightarrow> MTDNNConfig \<Rightarrow> py_error + MTDNNModel" where
  "MTDNNModel_init ext config =
     then_py (MTDNNPretrainedModel_init ext ''MTDNNModel'' (MTDNNConfigObj config)) (\<lambda>_.
     then_py (new_BertModel ext config) (\<lambda>bert.
     then_py (if encoder_type config = ROBERTA
              then roberta_setup ext config (new_instance ext config bert)
              else Inr (new_instance ext config bert)) (\<lambda>self.
       if dump_feature config then Inr self else init_heads ext config self)))"

section \<open>MTDNNModel.forward\<close>

datatype forward_result = SpanScores tensor tensor | Logits tensor

definition getlocal :: "string \<Rightarrow> 'a option \<Rightarrow> py_error + 'a" where
  \<comment> \<open>reading a local variable that is assigned only on some paths\<close>
  "getlocal name v = (case v of None \<Rightarrow> Inl (UnboundLocalError name) | Some x \<Rightarrow> Inr x)"

text \<open>
  Lines 138 to 143.  The result is the three locals \<open>all_encoder_layers\<close> (unassigned on
  the RoBERTa path), \<open>pooled_output\<close> and \<open>sequence_output\<close>.
\<close>

definition encode :: "MTDNNModel \<Rightarrow> tensor \<Rightarrow> tensor \<Rightarrow> tensor
    \<Rightarrow> py_error + (tensor list option \<times> tensor \<times> tensor)" where
  "encode self input_ids token_type_ids attention_mask =
     (if self_encoder_type self = ROBERTA then
        then_py (enc_extract_features (self_bert self) input_ids) (\<lambda>sequence_output.
        then_py (self_pooler self sequence_output) (\<lambda>pooled_output.
          Inr (None, pooled_output, sequence_output)))
      else
        then_py (enc_call (self_bert self) input_ids token_type_ids attention_mask) (\<lambda>r.
        then_py (py_index (fst r) (- 1)) (\<lambda>sequence_output.
          Inr (Some (fst r), snd r, sequence_output))))"

text \<open>Lines 148 to 154.\<close>

definition span_branch :: "MTDNNModel \<Rightarrow> int \<Rightarrow> int \<Rightarrow> tensor \<Rightarrow> py_error + forward_result" where
  "span_branch self task_id decoder_opt sequence_output =
     then_py (py_assert (decoder_opt \<noteq> 1)) (\<lambda>_.
     then_py (py_index (self_dropout_list self) task_id) (\<lambda>dropout.
     then_py (dropout_call dropout sequence_output) (\<lambda>sequence_output.
     then_py (getattr ''scoring_list'' (self_scoring_list self)) (\<lambda>scoring_list.
     then_py (py_index scoring_list task_id) (\<lambda>out_proj.
     then_py (linear_call out_proj sequence_output) (\<lambda>logits.
     then_py (split1_last logits) (\<lambda>chunks.
     then_py (unpack2 chunks) (\<lambda>scores.
       Inr (SpanScores (squeeze_last (fst scores)) (squeeze_last (snd scores)))))))))))"

text \<open>Lines 156 to 160.\<close>

definition sequence_labeling_branch :: "MTDNNModel \<Rightarrow> int \<Rightarrow> tensor list option
    \<Rightarrow> py_error + forward_result" where
  "sequence_labeling_branch self task_id all_encoder_layers =
     then_py (getlocal ''all_encoder_layers'' all_encoder_layers) (\<lambda>layers.
     then_py (py_index layers (- 1)) (\<lambda>pooled_output.
     then_py (py_index (self_dropout_list self) task_id) (\<lambda>dropout.
     then_py (dropout_call dropout pooled_output) (\<lambda>pooled_output.
     then_py (size_dim pooled_output 2) (\<lambda>width.
     then_py (view_rows pooled_output width) (\<lambda>pooled_output.
     then_py (getattr ''scoring_list'' (self_scoring_list self)) (\<lambda>scoring_list.
     then_py (py_index scoring_list task_id) (\<lambda>out_proj.
     then_py (linear_call out_proj pooled_output) (\<lambda>logits.
       Inr (Logits logits))))))))))"

text \<open>Lines 162 to 174.\<close>

definition other_branch :: "MTDNNModel \<Rightarrow> int \<Rightarrow> int \<Rightarrow> tensor \<Rightarrow> tensor
    \<Rightarrow> tensor option \<Rightarrow> tensor option \<Rightarrow> py_error + forward_result" where
  "other_branch self task_id decoder_opt pooled_output sequence_output premise_mask hyp_mask =
     (if decoder_opt = 1 then
        then_py (getattr ''size'' hyp_mask) (\<lambda>hm.
        then_py (size_dim hm 1) (\<lambda>max_query.
        then_py (py_assert (max_query > 0)) (\<lambda>_.
        then_py (py_assert (premise_mask \<noteq> None)) (\<lambda>_.
        then_py (py_assert (hyp_mask \<noteq> None)) (\<lambda>_.
        then_py (slice_queries sequence_output max_query) (\<lambda>hyp_mem.
        then_py (getattr ''scoring_list'' (self_scoring_list self)) (\<lambda>scoring_list.
        then_py (py_index scoring_list task_id) (\<lambda>out_proj.
        then_py (linear_call4 out_proj sequence_output hyp_mem premise_mask hyp_mask)
          (\<lambda>logits. Inr (Logits logits))))))))))
      else
        then_py (py_index (self_dropout_list self) task_id) (\<lambda>dropout.
        then_py (dropout_call dropout pooled_output) (\<lambda>pooled_output.
        then_py (getattr ''scoring_list'' (self_scoring_list self)) (\<lambda>scoring_list.
        then_py (py_index scoring_list task_id) (\<lambda>out_proj.
        then_py (linear_call out_proj pooled_output) (\<lambda>logits.
          Inr (Logits logits)))))))"

definition forward :: "MTDNNModel \<Rightarrow> tensor \<Rightarrow> tensor \<Rightarrow> tensor \<Rightarrow> tensor option
    \<Rightarrow> tensor option \<Rightarrow> int \<Rightarrow> py_error + forward_result" where
  "forward self input_ids token_type_ids attention_mask premise_mask hyp_mask task_id =
     then_py (encode self input_ids token_type_ids attention_mask) (\<lambda>locals.
     then_py (getattr ''decoder_opts'' (self_decoder_opts self)) (\<lambda>opts.
     then_py (py_index opts task_id) (\<lambda>decoder_opt.
     then_py (getattr ''task_types'' (self_task_types self)) (\<lambda>types.
     then_py (py_index types task_id) (\<lambda>task_type.
       if task_type = Span then
         span_branch self task_id decoder_opt (snd (snd locals))
       else if task_type = SequenceLabeling then
         sequence_labeling_branch self task_id (fst locals)
       else
         other_branch self task_id decoder_opt (fst (snd locals)) (snd (snd locals))
           premise_mask hyp_mask)))))"

text \<open>
  Lines 147 to 174 for a task whose decoder option, type, dropout module and scoring head
  are in hand: the body of \<open>forward\<close> without the four lookups by \<open>task_id\<close>.
\<close>

definition run_task :: "TaskType \<Rightarrow> int \<Rightarrow> DropoutWrapper \<Rightarrow> head
    \<Rightarrow> tensor list option \<times> tensor \<times> tensor \<Rightarrow> tensor option \<Rightarrow> tensor option
    \<Rightarrow> py_error + forward_result" where
  "run_task task_type decoder_opt dropout out_proj locals premise_mask hyp_mask =
     (if task_type = Span then
        then_py (py_assert (decoder_opt \<noteq> 1)) (\<lambda>_.
        then_py (dropout_call dropout (snd (snd locals))) (\<lambda>sequence_output.
        then_py (linear_call out_proj sequence_output) (\<lambda>logits.
        then_py (split1_last logits) (\<lambda>chunks.
        then_py (unpack2 chunks) (\<lambda>scores.
          Inr (SpanScores (squeeze_last (fst scores)) (squeeze_last (snd scores))))))))
      else if task_type = SequenceLabeling then
        then_py (getlocal ''all_encoder_layers'' (fst locals)) (\<lambda>layers.
        then_py (py_index layers (- 1)) (\<lambda>pooled_output.
        then_py (dropout_call dropout pooled_output) (\<lambda>pooled_output.
        then_py (size_dim pooled_output 2) (\<lambda>width.
        then_py (view_rows pooled_output width) (\<lambda>pooled_output.
        then_py (linear_call out_proj pooled_output) (\<lambda>logits.
          Inr (Logits logits)))))))
      else if decoder_opt = 1 then
        then_py (getattr ''size'' hyp_mask) (\<lambda>hm.
        then_py (size_dim hm 1) (\<lambda>max_query.
        then_py (py_assert (max_query > 0)) (\<lambda>_.
        then_py (py_assert (premise_mask \<noteq> None)) (\<lambda>_.
        then_py (py_assert (hyp_mask \<noteq> None)) (\<lambda>_.
        then_py (slice_queries (snd (snd locals)) max_query) (\<lambda>hyp_mem.
        then_py (linear_call4 out_proj (snd (snd locals)) hyp_mem premise_mask hyp_mask)
          (\<lambda>logits. Inr (Logits logits))))))))
      else
        then_py (dropout_call dropout (fst (snd locals))) (\<lambda>pooled_output.
        then_py (linear_call out_proj pooled_output) (\<lambda>logits.
          Inr (Logits logits))))"

section \<open>Example instances\<close>

text \<open>
  A stand-in for the library encoder, of hidden size \<open>h\<close>: on token ids of shape
  \<open>(batch, seq)\<close> it yields two layers of shape \<open>(batch, seq, h)\<close> and a pooled output
  of shape \<open>(batch, h)\<close>.
\<close>

definition example_encoder :: "nat \<Rightarrow> encoder" where
  "example_encoder h =
     \<lparr>enc_call = (\<lambda>i t a. case shape i of
          [b, s] \<Rightarrow> Inr ([Tensor [b, s, h], Tensor [b, s, h]], Tensor [b, h])
        | _ \<Rightarrow> Inl (ExternalError ''input_ids'')),
      enc_extract_features = (\<lambda>i. case shape i of
          [b, s] \<Rightarrow> Inr (Tensor [b, s, h])
        | _ \<Rightarrow> Inl (ExternalError ''input_ids'')),
      enc_modules = Module KOther Untouched Untouched
        [Module KEmbedding Untouched Untouched [],
         Module KLayerNormWeightBias Untouched Untouched [],
         Module KLinear Untouched Untouched []],
      enc_frozen = False\<rparr>"

text \<open>
  A stand-in whose call answers as the transformers \<open>BertModel\<close> does: the first
  component is one tensor of shape \<open>(batch, seq, h)\<close>, not a list of layers.  Python
  indexes a tensor along its first dimension, so as a sequence it is \<open>batch\<close> items of
  shape \<open>(seq, h)\<close>.
\<close>

definition tensor_encoder :: "nat \<Rightarrow> encoder" where
  "tensor_encoder h =
     (example_encoder h)\<lparr>enc_call := (\<lambda>i t a. case shape i of
          [b, s] \<Rightarrow> Inr (replicate b (Tensor [s, h]), Tensor [b, h])
        | _ \<Rightarrow> Inl (ExternalError ''input_ids''))\<rparr>"

definition example_externals :: externals where
  "example_externals =
     \<lparr>super_init = (\<lambda>c. None),
      new_BertModel = (\<lambda>c. Inr (example_encoder (hidden_size c))),
      base_modules = [Module KEmbedding Untouched Untouched []],
      base_pooler = (\<lambda>t. case shape t of
          [b, s, d] \<Rightarrow> Inr (Tensor [b, d])
        | _ \<Rightarrow> Inl (ExternalError ''pooler'')),
      from_pretrained = (\<lambda>p. Inr (example_encoder 8, 8))\<rparr>"

text \<open>The two-task scenario of the spec: task 0 is Span, task 1 is Other with 3 classes.\<close>

definition example_config :: MTDNNConfig where
  "example_config =
     \<lparr>encoder_type = BERT, init_checkpoint = ''checkpoint'', hidden_size = 8,
      dump_feature = False, decoder_opts = [0, 0], update_bert_opt = 0,
      task_types = [Span, Other], tasks_dropout_p = [0.1, 0.1], n_class = [2, 3],
      enable_variational_dropout = False\<rparr>"

text \<open>A configuration that declares no task at all.\<close>

definition no_task_config :: MTDNNConfig where
  "no_task_config =
     example_config\<lparr>decoder_opts := [], task_types := [], tasks_dropout_p := [],
       n_class := []\<rparr>"

text \<open>
  A model instance of hidden size 8 with the given encoder type, decoder options, task
  types and scoring heads, one dropout module for each head.
\<close>

definition example_model :: "EncoderModelType \<Rightarrow> int list \<Rightarrow> TaskType list \<Rightarrow> head list
    \<Rightarrow> MTDNNModel" where
  "example_model et opts types heads =
     \<lparr>self_config = example_config, self_local_updates = 0,
      self_dropout_list = map (\<lambda>h. DropoutWrapper 0.1 False) heads,
      self_encoder_type = et, self_bert = example_encoder 8,
      self_hidden_size = 8, self_pooler = LinearPooler_call 8,
      self_decoder_opts = Some opts, self_scoring_list = Some heads,
      self_task_types = Some types,
      self_task_dropout_p = Some (map (\<lambda>h. 0.1) heads),
      self_n_class = Some (map (\<lambda>h. int (out_features h)) heads), self_opt = None,
      self_modules = []\<rparr>"

section \<open>Basic facts\<close>

lemma then_py_Inl [simp]: "then_py (Inl e) f = Inl e"
  by (simp add: then_py_def)

lemma then_py_Inr [simp]: "then_py (Inr x) f = f x"
  by (simp add: then_py_def)

lemma then_py_raises: "\<exists>e. r = Inl e \<Longrightarrow> \<exists>e. then_py r f = Inl e"
  by auto

lemma then_py_cases:
  "(\<And>x. r = Inr x \<Longrightarrow> \<exists>e. f x = Inl e) \<Longrightarrow> \<exists>e. then_py r f = Inl e"
  by (cases r) auto

text \<open>The names that the module reads without binding them.\<close>

lemma load_global_hidden_size: "load_global ''hidden_size'' = Inl (NameError ''hidden_size'')"
  by (simp add: load_global_def module_globals_def)

lemma load_global_DropoutWrapper:
  "load_global ''DropoutWrapper'' = Inl (NameError ''DropoutWrapper'')"
  by (simp add: load_global_def module_globals_def)

lemma load_global_BertLayerNorm:
  "load_global ''BertLayerNorm'' = Inl (NameError ''BertLayerNorm'')"
  by (simp add: load_global_def module_globals_def)

lemma load_global_LinearPooler: "load_global ''LinearPooler'' = Inr (VClass ''LinearPooler'')"
  by (simp add: load_global_def module_globals_def)

section \<open>Construction\<close>

text \<open>
  The initialisation pass ends on the model itself, which is neither a linear, an
  embedding nor (the name being unbound) a normalisation module: the pass always raises.
\<close>

lemma init_weights_KOther: "init_weights opt KOther wb = Inl (NameError ''BertLayerNorm'')"
  by (simp add: init_weights_def load_global_BertLayerNorm)

lemma my_init_raises: "\<exists>e. my_init self = Inl e"
  by (simp add: my_init_def init_weights_KOther split: sum.splits)

lemma build_heads_raises: "\<exists>e. build_heads config task (label # rest) acc = Inl e"
  by (cases "py_index (task_types config) (int task)")
     (simp_all add: load_global_DropoutWrapper)

lemma roberta_setup_raises: "\<exists>e. roberta_setup ext config self = Inl e"
  by (cases "from_pretrained ext (init_checkpoint config)")
     (simp_all add: roberta_setup_def load_global_LinearPooler load_global_hidden_size)

lemma heads_then_init_raises:
  "\<exists>e. then_py (build_heads config 0 (n_class config) acc) (\<lambda>lists. my_init (g lists)) = Inl e"
proof (cases "n_class config")
  case Nil
  then show ?thesis by (simp add: my_init_raises)
next
  case (Cons label rest)
  obtain e where "build_heads config 0 (label # rest) acc = Inl e"
    using build_heads_raises by blast
  with Cons show ?thesis by (simp del: build_heads.simps)
qed

lemma init_heads_raises: "\<exists>e. init_heads ext config self = Inl e"
  unfolding init_heads_def Let_def by (rule heads_then_init_raises)

text \<open>Whatever the library calls return, no model with task heads is ever constructed.\<close>

lemma init_with_heads_raises:
  assumes "\<not> dump_feature config"
  shows "\<exists>e. MTDNNModel_init ext config = Inl e"
  unfolding MTDNNModel_init_def
  by (intro then_py_cases) (simp only: assms if_False init_heads_raises)

lemma init_roberta_raises:
  assumes "encoder_type config = ROBERTA"
  shows "\<exists>e. MTDNNModel_init ext config = Inl e"
  unfolding MTDNNModel_init_def
proof (rule then_py_cases, rule then_py_cases, rule then_py_raises)
  fix bert
  show "\<exists>e. (if encoder_type config = ROBERTA
             then roberta_setup ext config (new_instance ext config bert)
             else Inr (new_instance ext config bert)) = Inl e"
    by (simp add: assms roberta_setup_raises)
qed

text \<open>
  C1.  The claim: a configuration with \<open>dump_feature\<close> false that declares n tasks is
  constructed into a model whose dropout list and scoring list have length n.  The code
  does not get there: for the two-task configuration of the spec the first pass through
  the loop reads the name \<open>DropoutWrapper\<close>, which the module never binds, and
  construction raises NameError.
\<close>

theorem C1_construction_raises_NameError:
  "MTDNNModel_init example_externals example_config = Inl (NameError ''DropoutWrapper'')"
  by (simp add: MTDNNModel_init_def MTDNNPretrainedModel_init_def init_heads_def
      new_instance_def example_externals_def example_config_def py_index_def
      load_global_DropoutWrapper)

text \<open>
  C2.  The claim: with the RoBERTa encoder type construction succeeds and installs a
  pooling adapter.  The code loads the encoder and then reads the name \<open>hidden_size\<close>
  (line 72), which is neither a local of \<open>__init__\<close> nor bound by the module:
  construction raises NameError and no adapter is installed.
\<close>

theorem C2_roberta_construction_raises_NameError:
  "MTDNNModel_init example_externals (example_config\<lparr>encoder_type := ROBERTA\<rparr>)
     = Inl (NameError ''hidden_size'')"
  by (simp add: MTDNNModel_init_def MTDNNPretrainedModel_init_def roberta_setup_def
      new_instance_def example_externals_def example_config_def
      load_global_LinearPooler load_global_hidden_size)

text \<open>
  C6.  The claim: after construction every linear and embedding weight is drawn from a
  normal distribution of standard deviation 0.02 times the init ratio, every linear bias
  is zero, every normalisation scale is 1 and shift 0.  The code reaches \<open>_my_init\<close> only
  for a configuration without tasks, and there the first embedding module makes it read
  \<open>self.opt\<close>, an attribute that no statement assigns: construction raises
  AttributeError and no parameter is initialised.
\<close>

theorem C6_initialisation_raises_AttributeError:
  "MTDNNModel_init example_externals no_task_config = Inl (AttributeError ''opt'')"
  by (simp add: MTDNNModel_init_def MTDNNPretrainedModel_init_def init_heads_def
      new_instance_def example_externals_def example_config_def no_task_config_def
      my_init_def module_tree_def init_weights_def getattr_def)

text \<open>
  C7.  A constructor argument that is not an instance of \<open>PretrainedConfig\<close> is rejected:
  no instance is produced, and unless the base-class constructor has already raised, the
  error is the ValueError whose message names the class \<open>PretrainedConfig\<close>.
\<close>

theorem C7_invalid_config_rejected:
  assumes "\<not> is_PretrainedConfig config"
  shows "(\<exists>e. MTDNNPretrainedModel_init ext cls config = Inl e) \<and>
         (super_init ext config = None \<longrightarrow>
            MTDNNPretrainedModel_init ext cls config
              = Inl (ValueError (config_error_message cls))) \<and>
         (\<exists>pre post. config_error_message cls = pre @ ''`PretrainedConfig`'' @ post)"
proof (intro conjI)
  show "\<exists>e. MTDNNPretrainedModel_init ext cls config = Inl e"
    using assms by (simp add: MTDNNPretrainedModel_init_def split: option.splits)
  show "super_init ext config = None \<longrightarrow>
          MTDNNPretrainedModel_init ext cls config
            = Inl (ValueError (config_error_message cls))"
    using assms by (simp add: MTDNNPretrainedModel_init_def)
  have "config_error_message cls =
          (''Parameter config in `'' @ cls @ ''(config)` should be an instance of class '')
          @ ''`PretrainedConfig`'' @
          (''. To create a model from a pretrained model use `model = '' @ cls
           @ ''.from_pretrained(PRETRAINED_MODEL_NAME)`'')"
    by (simp add: config_error_message_def)
  then show "\<exists>pre post. config_error_message cls = pre @ ''`PretrainedConfig`'' @ post"
    by blast
qed

theorem C7_invalid_config_rejected_witness:
  "\<not> is_PretrainedConfig (NonConfigObj ''dict'') \<and>
   super_init example_externals (NonConfigObj ''dict'') = None \<and>
   MTDNNPretrainedModel_init example_externals ''MTDNNModel'' (NonConfigObj ''dict'')
     = Inl (ValueError (config_error_message ''MTDNNModel''))"
  using C7_invalid_config_rejected [of "NonConfigObj ''dict''" example_externals "''MTDNNModel''"]
  by (simp add: example_externals_def)

section \<open>Forward dispatch\<close>

lemma py_index_negative:
  "- int (length xs) \<le> i \<Longrightarrow> i < 0 \<Longrightarrow> py_index xs i = Inr (xs ! nat (int (length xs) + i))"
  by (simp add: py_index_def)

lemma py_index_wraps:
  "- int (length xs) \<le> i \<Longrightarrow> i < 0 \<Longrightarrow> py_index xs i = py_index xs (int (length xs) + i)"
  by (simp add: py_index_def)

lemma encode_roberta_locals:
  "self_encoder_type self = ROBERTA \<Longrightarrow> encode self i t a = Inr locals \<Longrightarrow> fst locals = None"
  by (auto simp: encode_def then_py_def split: sum.splits)

lemma encode_bert_locals:
  "self_encoder_type self \<noteq> ROBERTA \<Longrightarrow> encode self i t a = Inr locals \<Longrightarrow> fst locals \<noteq> None"
  by (auto simp: encode_def then_py_def split: sum.splits)

lemma forward_without_heads:
  "self_decoder_opts self = None \<Longrightarrow> \<exists>e. forward self i t a pm hm task_id = Inl e"
  unfolding forward_def by (rule then_py_cases) (simp add: getattr_def)

lemma init_dump_feature_result:
  assumes "dump_feature config" and "MTDNNModel_init ext config = Inr self"
  shows "\<exists>bert. encoder_type config \<noteq> ROBERTA \<and> new_BertModel ext config = Inr bert \<and> self = new_instance ext config bert"
proof -
  have not_roberta: "encoder_type config \<noteq> ROBERTA"
    using assms(2) init_roberta_raises [of config ext] by auto
  show ?thesis
    using assms not_roberta
    by (auto simp: MTDNNModel_init_def then_py_def split: sum.splits)
qed

text \<open>
  C3.  For a task of type Other whose decoder option is the pairwise code 1, a call of
  \<open>forward\<close> with \<open>hyp_mask=None\<close> raises: it returns no logits, so it never takes the
  default path.  Once the encoder has returned, the exception is the AttributeError of
  \<open>hyp_mask.size(1)\<close> on line 163.
\<close>

theorem C3_pairwise_without_hyp_mask_raises:
  assumes "self_decoder_opts self = Some opts" and "py_index opts task_id = Inr 1"
    and "self_task_types self = Some types" and "py_index types task_id = Inr Other"
  shows "(\<exists>e. forward self i t a premise_mask None task_id = Inl e) \<and>
         (\<forall>locals. encode self i t a = Inr locals \<longrightarrow>
            forward self i t a premise_mask None task_id = Inl (AttributeError ''size''))"
proof -
  have *: "forward self i t a premise_mask None task_id = Inl (AttributeError ''size'')"
    if "encode self i t a = Inr locals" for locals
    using that assms by (simp add: forward_def getattr_def other_branch_def)
  moreover have "\<exists>e. forward self i t a premise_mask None task_id = Inl e"
  proof (cases "encode self i t a")
    case (Inl e)
    then show ?thesis by (simp add: forward_def)
  next
    case (Inr locals)
    then show ?thesis using * by blast
  qed
  ultimately show ?thesis by blast
qed

theorem C3_pairwise_without_hyp_mask_raises_witness:
  "self_decoder_opts (example_model BERT [0, 1] [Span, Other] [Linear 8 2, Linear 8 3]) = Some [0, 1] \<and>
   py_index [0, 1 :: int] 1 = Inr 1 \<and>
   self_task_types (example_model BERT [0, 1] [Span, Other] [Linear 8 2, Linear 8 3]) = Some [Span, Other] \<and>
   py_index [Span, Other] 1 = Inr Other \<and>
   forward (example_model BERT [0, 1] [Span, Other] [Linear 8 2, Linear 8 3])
     (Tensor [4, 16]) (Tensor [4, 16]) (Tensor [4, 16]) (Some (Tensor [4, 16])) None 1
     = Inl (AttributeError ''size'')"
  using C3_pairwise_without_hyp_mask_raises [of "example_model BERT [0, 1] [Span, Other] [Linear 8 2, Linear 8 3]"
      "[0, 1]" 1 "[Span, Other]" "Tensor [4, 16]" "Tensor [4, 16]" "Tensor [4, 16]"
      "Some (Tensor [4, 16])"]
  by (simp add: example_model_def py_index_def encode_def example_encoder_def)






text \<open>The assertion stops every call on a Span task with decoder option 1.\<close>

lemma span_pairwise_option_raises:
  assumes "self_task_types self = Some types" and "py_index types task_id = Inr Span"
    and "self_decoder_opts self = Some opts" and "py_index opts task_id = Inr 1"
    and "encode self input_ids token_type_ids attention_mask = Inr locals"
  shows "forward self input_ids token_type_ids attention_mask premise_mask hyp_mask task_id
           = Inl AssertionError"
  using assms by (simp add: forward_def getattr_def span_branch_def py_assert_def)

text \<open>
  On the BERT path the sequence output is \<open>all_encoder_layers[-1]\<close> (line 143).  When the
  encoder answers with one tensor, this is the last item of the batch, and the scores of
  a \<open>(4, 16)\<close> batch have shape \<open>(16)\<close>.
\<close>

lemma span_scores_tensor_encoder:
  "forward ((example_model BERT [0, 0] [Span, Other] [Linear 8 2, Linear 8 3])
              \<lparr>self_bert := tensor_encoder 8\<rparr>)
     (Tensor [4, 16]) (Tensor [4, 16]) (Tensor [4, 16]) None None 0
     = Inr (SpanScores (Tensor [16]) (Tensor [16]))"
  by (simp add: forward_def example_model_def py_index_def encode_def tensor_encoder_def
      example_encoder_def getattr_def span_branch_def py_assert_def dropout_call_def
      linear_call_def split1_last_def unpack2_def squeeze_last_def numeral_2_eq_2
      numeral_eq_Suc)

text \<open>
  C5.  The claim: for a task of type SequenceLabeling \<open>forward\<close> returns per-token logits.
  Under the RoBERTa encoder type the local \<open>all_encoder_layers\<close> is never assigned, and
  the branch raises UnboundLocalError on line 156.
\<close>

theorem C5_sequence_labeling_roberta_raises:
  "forward (example_model ROBERTA [0] [SequenceLabeling] [Linear 8 5])
     (Tensor [4, 16]) (Tensor [4, 16]) (Tensor [4, 16]) None None 0
     = Inl (UnboundLocalError ''all_encoder_layers'')"
  by (simp add: forward_def example_model_def py_index_def encode_def example_encoder_def
      getattr_def sequence_labeling_branch_def getlocal_def LinearPooler_call_def)

text \<open>
  Under the other encoder type the branch does what the claim says: the logits have one
  row for each token of the batch and one column for each class of the head.
\<close>

lemma sequence_labeling_logits_bert:
  assumes "self_encoder_type self \<noteq> ROBERTA"
    and "enc_call (self_bert self) input_ids token_type_ids attention_mask = Inr (layers, pooled)"
    and "py_index layers (- 1) = Inr (Tensor [b, s, h])" and "0 < h"
    and "self_decoder_opts self = Some opts" and "py_index opts task_id = Inr d"
    and "self_task_types self = Some types" and "py_index types task_id = Inr SequenceLabeling"
    and "py_index (self_dropout_list self) task_id = Inr dropout"
    and "self_scoring_list self = Some heads" and "py_index heads task_id = Inr (Linear h c)"
  shows "forward self input_ids token_type_ids attention_mask premise_mask hyp_mask task_id
           = Inr (Logits (Tensor [b * s, c]))"
  using assms
  by (simp add: forward_def encode_def getattr_def sequence_labeling_branch_def getlocal_def
      dropout_call_def size_dim_def view_rows_def linear_call_def)

text \<open>
  C8.  With \<open>dump_feature\<close> set, a constructed instance has no scoring list, an empty
  dropout list, and neither decoder options nor task types, and every call of \<open>forward\<close>
  on it raises.  Such an instance is constructed whenever the encoder type is not RoBERTa
  and the library calls succeed.
\<close>

theorem C8_dump_feature_no_heads:
  assumes "dump_feature config"
  shows "(\<forall>self. MTDNNModel_init ext config = Inr self \<longrightarrow>
            self_scoring_list self = None \<and> self_dropout_list self = [] \<and>
            self_decoder_opts self = None \<and> self_task_types self = None \<and>
            (\<forall>i t a pm hm task_id. \<exists>e. forward self i t a pm hm task_id = Inl e)) \<and>
         (encoder_type config \<noteq> ROBERTA \<and> super_init ext (MTDNNConfigObj config) = None \<and>
          new_BertModel ext config = Inr bert \<longrightarrow>
            MTDNNModel_init ext config = Inr (new_instance ext config bert))"
proof (intro conjI allI impI)
  fix self
  assume built: "MTDNNModel_init ext config = Inr self"
  then obtain b where self: "self = new_instance ext config b"
    using assms init_dump_feature_result by blast
  show "self_scoring_list self = None" and "self_dropout_list self = []"
    and "self_decoder_opts self = None" and "self_task_types self = None"
    by (simp_all add: self new_instance_def)
  then show "\<exists>e. forward self i t a pm hm task_id = Inl e" for i t a pm hm task_id
    by (simp add: forward_without_heads)
next
  assume "encoder_type config \<noteq> ROBERTA \<and> super_init ext (MTDNNConfigObj config) = None \<and>
          new_BertModel ext config = Inr bert"
  then show "MTDNNModel_init ext config = Inr (new_instance ext config bert)"
    using assms by (simp add: MTDNNModel_init_def MTDNNPretrainedModel_init_def)
qed

theorem C8_dump_feature_no_heads_witness:
  "dump_feature (example_config\<lparr>dump_feature := True\<rparr>) \<and>
   MTDNNModel_init example_externals (example_config\<lparr>dump_feature := True\<rparr>)
     = Inr (new_instance example_externals (example_config\<lparr>dump_feature := True\<rparr>)
              (example_encoder 8)) \<and>
   self_scoring_list (new_instance example_externals (example_config\<lparr>dump_feature := True\<rparr>)
              (example_encoder 8)) = None \<and>
   (\<exists>e. forward (new_instance example_externals (example_config\<lparr>dump_feature := True\<rparr>)
              (example_encoder 8)) (Tensor [4, 16]) (Tensor [4, 16]) (Tensor [4, 16]) None None 0 = Inl e)"
  using C8_dump_feature_no_heads [of "example_config\<lparr>dump_feature := True\<rparr>" example_externals "example_encoder 8"]
  by (simp add: example_config_def example_externals_def)

text \<open>
  C9.  Under the RoBERTa encoder type the encoding step leaves \<open>all_encoder_layers\<close>
  unassigned, and \<open>forward\<close> on a task of type SequenceLabeling raises instead of
  returning logits: once the encoder has returned and the decoder option has been looked
  up, the exception is the UnboundLocalError (a NameError) for that variable.
\<close>

theorem C9_sequence_labeling_needs_bert:
  assumes "self_encoder_type self = ROBERTA"
    and "self_task_types self = Some types" and "py_index types task_id = Inr SequenceLabeling"
  shows "(\<exists>e. forward self i t a pm hm task_id = Inl e) \<and>
         (\<forall>locals. encode self i t a = Inr locals \<longrightarrow> fst locals = None) \<and>
         (\<forall>locals opts d. encode self i t a = Inr locals \<and>
              self_decoder_opts self = Some opts \<and> py_index opts task_id = Inr d \<longrightarrow>
            forward self i t a pm hm task_id = Inl (UnboundLocalError ''all_encoder_layers''))"
proof (intro conjI allI impI)
  show none: "fst locals = None" if "encode self i t a = Inr locals" for locals
    using that assms(1) by (rule encode_roberta_locals [rotated])
  show "\<exists>e. forward self i t a pm hm task_id = Inl e"
    unfolding forward_def
  proof (intro then_py_cases)
    fix locals opts d tys ty
    assume "encode self i t a = Inr locals"
      and "getattr ''task_types'' (self_task_types self) = Inr tys"
      and "py_index tys task_id = Inr ty"
    then show "\<exists>e. (if ty = Span then span_branch self task_id d (snd (snd locals))
             else if ty = SequenceLabeling
                  then sequence_labeling_branch self task_id (fst locals)
                  else other_branch self task_id d (fst (snd locals)) (snd (snd locals)) pm hm) = Inl e"
      using assms none
      by (simp add: getattr_def sequence_labeling_branch_def getlocal_def)
  qed
  fix locals opts d
  assume "encode self i t a = Inr locals \<and>
              self_decoder_opts self = Some opts \<and> py_index opts task_id = Inr d"
  then show "forward self i t a pm hm task_id = Inl (UnboundLocalError ''all_encoder_layers'')"
    using assms none
    by (simp add: forward_def getattr_def sequence_labeling_branch_def getlocal_def)
qed

theorem C9_sequence_labeling_needs_bert_witness:
  "self_encoder_type (example_model ROBERTA [0, 0] [Span, SequenceLabeling] [Linear 8 2, Linear 8 5]) = ROBERTA \<and>
   py_index [Span, SequenceLabeling] 1 = Inr SequenceLabeling \<and>
   encode (example_model ROBERTA [0, 0] [Span, SequenceLabeling] [Linear 8 2, Linear 8 5])
     (Tensor [4, 16]) (Tensor [4, 16]) (Tensor [4, 16])
     = Inr (None, Tensor [4, 8], Tensor [4, 16, 8]) \<and>
   forward (example_model ROBERTA [0, 0] [Span, SequenceLabeling] [Linear 8 2, Linear 8 5])
     (Tensor [4, 16]) (Tensor [4, 16]) (Tensor [4, 16]) None None 1
     = Inl (UnboundLocalError ''all_encoder_layers'')"
  using C9_sequence_labeling_needs_bert [of "example_model ROBERTA [0, 0] [Span, SequenceLabeling] [Linear 8 2, Linear 8 5]"
      "[Span, SequenceLabeling]" 1 "Tensor [4, 16]" "Tensor [4, 16]" "Tensor [4, 16]" None None]
  by (simp add: example_model_def py_index_def encode_def example_encoder_def LinearPooler_call_def)

text \<open>
  Once the four lookups by \<open>task_id\<close> have succeeded, \<open>forward\<close> is the encoding step
  followed by the body of the selected task.
\<close>

lemma forward_selected:
  assumes "self_decoder_opts self = Some opts" and "py_index opts task_id = Inr d"
    and "self_task_types self = Some types" and "py_index types task_id = Inr ty"
    and "py_index (self_dropout_list self) task_id = Inr dropout"
    and "self_scoring_list self = Some heads" and "py_index heads task_id = Inr out_proj"
  shows "forward self i t a pm hm task_id
           = then_py (encode self i t a) (\<lambda>locals. run_task ty d dropout out_proj locals pm hm)"
  using assms
  by (cases ty; cases "d = 1")
     (simp_all add: forward_def run_task_def getattr_def span_branch_def
        sequence_labeling_branch_def other_branch_def)

text \<open>
  C10.  On a model with n tasks and for a task id in \<open>[-n, -1]\<close>, no lookup of \<open>forward\<close>
  fails: the call is the encoding step followed by the body of the task at position
  \<open>n + task_id\<close>, run with the decoder option, the task type, the dropout module and the
  scoring head found at that position, and it returns what the call with task id
  \<open>n + task_id\<close> returns.
\<close>

theorem C10_negative_task_id_wraps:
  assumes "self_decoder_opts self = Some opts" and "self_task_types self = Some types"
    and "self_scoring_list self = Some heads"
    and "length opts = n" and "length types = n"
    and "length (self_dropout_list self) = n" and "length heads = n"
    and "- int n \<le> task_id" and "task_id < 0"
  shows "forward self i t a pm hm task_id
           = then_py (encode self i t a) (\<lambda>locals.
               run_task (types ! nat (int n + task_id)) (opts ! nat (int n + task_id))
                 (self_dropout_list self ! nat (int n + task_id))
                 (heads ! nat (int n + task_id)) locals pm hm) \<and>
         forward self i t a pm hm task_id = forward self i t a pm hm (int n + task_id)"
proof -
  have neg: "py_index xs task_id = Inr (xs ! nat (int n + task_id))"
    if "length xs = n" for xs :: "'b list"
    using that assms(8,9) py_index_negative [of xs task_id] by simp
  have pos: "py_index xs (int n + task_id) = Inr (xs ! nat (int n + task_id))"
    if "length xs = n" for xs :: "'b list"
    using that assms(8,9) by (simp add: py_index_def)
  have at_neg: "forward self i t a pm hm task_id
           = then_py (encode self i t a) (\<lambda>locals.
               run_task (types ! nat (int n + task_id)) (opts ! nat (int n + task_id))
                 (self_dropout_list self ! nat (int n + task_id))
                 (heads ! nat (int n + task_id)) locals pm hm)"
    by (rule forward_selected [OF assms(1) neg [OF assms(4)] assms(2) neg [OF assms(5)]
          neg [OF assms(6)] assms(3) neg [OF assms(7)]])
  have at_pos: "forward self i t a pm hm (int n + task_id)
           = then_py (encode self i t a) (\<lambda>locals.
               run_task (types ! nat (int n + task_id)) (opts ! nat (int n + task_id))
                 (self_dropout_list self ! nat (int n + task_id))
                 (heads ! nat (int n + task_id)) locals pm hm)"
    by (rule forward_selected [OF assms(1) pos [OF assms(4)] assms(2) pos [OF assms(5)]
          pos [OF assms(6)] assms(3) pos [OF assms(7)]])
  show ?thesis using at_neg at_pos by simp
qed

theorem C10_negative_task_id_wraps_witness:
  "- int 2 \<le> (- 1 :: int) \<and> (- 1 :: int) < 0 \<and>
   [Span, Other] ! nat (int 2 + (- 1)) = Other \<and>
   [Linear 8 2, Linear 8 3] ! nat (int 2 + (- 1)) = Linear 8 3 \<and>
   forward (example_model BERT [0, 0] [Span, Other] [Linear 8 2, Linear 8 3])
     (Tensor [4, 16]) (Tensor [4, 16]) (Tensor [4, 16]) None None (- 1)
     = Inr (Logits (Tensor [4, 3]))"
  using C10_negative_task_id_wraps [of "example_model BERT [0, 0] [Span, Other] [Linear 8 2, Linear 8 3]"
      "[0, 0]" "[Span, Other]" "[Linear 8 2, Linear 8 3]" 2 "- 1"
      "Tensor [4, 16]" "Tensor [4, 16]" "Tensor [4, 16]" None None]
  by (simp add: example_model_def py_index_def encode_def example_encoder_def run_task_def
      dropout_call_def linear_call_def)

end
